theory Spec2Isabelle
  imports Main
begin

section \<open>The FTP session, as the scanner sees it\<close>

text \<open>
  \<^verbatim>\<open>src/utils/ftp.py\<close> drives one \<^verbatim>\<open>ftplib.FTP\<close> instance. Every command either
  returns or raises; the except clauses of the source tell four \<^verbatim>\<open>ftplib\<close> exception
  classes apart, and anything else (\<^verbatim>\<open>OSError\<close>, \<^verbatim>\<open>EOFError\<close> of the socket layer)
  is caught by none of them.
\<close>

datatype ftp_error = error_perm | error_temp | error_reply | error_proto | other_error

text \<open>The commands the class sends: \<^verbatim>\<open>nlst()\<close>, \<^verbatim>\<open>cwd(p)\<close>, \<^verbatim>\<open>mkd(p)\<close>, \<^verbatim>\<open>rmd(p)\<close>,
  \<^verbatim>\<open>storbinary("STOR " + p, StringIO(''))\<close>, \<^verbatim>\<open>delete(p)\<close> and \<^verbatim>\<open>dir(callback)\<close>.\<close>

datatype call = NLST | CWD string | MKD string | RMD string | STOR string | DELE string | DIR

text \<open>
  The server is a parameter: a transition function from a command and the server's state
  to a reply (the exception raised, or the lines returned; no lines for a command that
  returns none) and the next state. The session pairs the server's state with the record
  of the commands sent so far and how each ended (\<open>None\<close>: it returned).
\<close>

type_synonym 's server = "call \<Rightarrow> 's \<Rightarrow> (ftp_error + string list) \<times> 's"

record 's session =
  remote :: 's
  sent :: "(call \<times> ftp_error option) list"

definition raised :: "ftp_error + 'a \<Rightarrow> ftp_error option" where
  "raised r = (case r of Inl e \<Rightarrow> Some e | Inr _ \<Rightarrow> None)"

definition ftp_cmd :: "'s server \<Rightarrow> call \<Rightarrow> 's session \<Rightarrow> (ftp_error + string list) \<times> 's session" where
  "ftp_cmd srv c w =
     (case srv c (remote w) of
        (r, s') \<Rightarrow> (r, \<lparr>remote = s', sent = sent w @ [(c, raised r)]\<rparr>))"

section \<open>getMaxRights\<close>

text \<open>Lines 262-264: the character \<open>element\<close> at index \<open>i\<close> of a listing line grants a right.\<close>

definition grants :: "char \<Rightarrow> nat \<Rightarrow> bool" where
  "grants element i =
     ((element = CHR ''r'' \<and> i mod 3 = 1) \<or>
      (element = CHR ''w'' \<and> i mod 3 = 2) \<or>
      ((element = CHR ''x'' \<or> element = CHR ''X'' \<or> element = CHR ''s'') \<and> i mod 3 = 0))"

text \<open>The four locals of lines 235-236 and 248-249.\<close>

record rights_acc =
  is_valid_dir :: bool
  is_valid_file :: bool
  result_dir :: "bool list"
  result_file :: "bool list"

definition init_acc :: rights_acc where
  "init_acc = \<lparr>is_valid_dir = False, is_valid_file = False,
     result_dir = [False, False, False, False, False, False, False, False, False],
     result_file = [False, False, False, False, False, False, False, False, False]\<rparr>"

text \<open>Lines 260-268: one round of \<^verbatim>\<open>for i in range(1, 10)\<close>. It runs only for a line
  longer than 10 characters, so \<open>line ! i\<close> and \<open>line ! 0\<close> are in range.\<close>

definition mark_right :: "string \<Rightarrow> rights_acc \<Rightarrow> nat \<Rightarrow> rights_acc" where
  "mark_right line a i =
     (if grants (line ! i) i then
        (if line ! 0 = CHR ''d'' then a\<lparr>result_dir := (result_dir a)[i - 1 := True]\<rparr>
         else a\<lparr>result_file := (result_file a)[i - 1 := True]\<rparr>)
      else a)"

text \<open>Lines 251-268: the body of \<^verbatim>\<open>for line in data\<close>.\<close>

definition scan_line :: "rights_acc \<Rightarrow> string \<Rightarrow> rights_acc" where
  "scan_line a line =
     (if length line > 10 then
        (if line ! 0 = CHR ''-'' \<or> line ! 0 = CHR ''d'' then
           foldl (mark_right line)
             (if line ! 0 = CHR ''d'' then a\<lparr>is_valid_dir := True\<rparr>
              else a\<lparr>is_valid_file := True\<rparr>)
             [1..<10]
         else a)
      else a)"

text \<open>Lines 275-295 (and 300-320): the table of rights as a number between 000 and 777.\<close>

definition rights_number :: "bool list \<Rightarrow> int" where
  "rights_number r =
     (if r ! 0 then 400 else 0) + (if r ! 1 then 200 else 0) + (if r ! 2 then 100 else 0) +
     (if r ! 3 then 40 else 0) + (if r ! 4 then 20 else 0) + (if r ! 5 then 10 else 0) +
     (if r ! 6 then 4 else 0) + (if r ! 7 then 2 else 0) + (if r ! 8 then 1 else 0)"

text \<open>Lines 244-324: what \<^verbatim>\<open>getMaxRights\<close> computes from the lines \<^verbatim>\<open>data\<close> once
  \<^verbatim>\<open>dir\<close> has returned (the spec calls this part \<open>parseMaxRights\<close>).\<close>

definition parseMaxRights :: "string list \<Rightarrow> int \<times> int" where
  "parseMaxRights data =
     (if length data \<le> 0 then (-1, -1)
      else
        (let a = foldl scan_line init_acc data in
         if is_valid_dir a = False \<and> is_valid_file a = False then (-1, -1)
         else
           (if is_valid_dir a then rights_number (result_dir a) else -1,
            if is_valid_file a then rights_number (result_file a) else -1)))"

text \<open>Lines 234-246: the listing is fetched with \<^verbatim>\<open>dir\<close>; only \<^verbatim>\<open>error_perm\<close> is caught.\<close>

definition getMaxRights :: "'s server \<Rightarrow> 's session \<Rightarrow> (ftp_error + int \<times> int) \<times> 's session" where
  "getMaxRights srv w =
     (case ftp_cmd srv DIR w of
        (Inl e, w') \<Rightarrow> (if e = error_perm then (Inr (-1, -1), w') else (Inl e, w'))
      | (Inr data, w') \<Rightarrow> (Inr (parseMaxRights data), w'))"

section \<open>checkWriteAndDeleteAccess\<close>

text \<open>Lines 194-206: the directory half. The pair is
  \<open>(can_create_dir, can_delete_dir)\<close>; only \<^verbatim>\<open>error_perm\<close> is caught.\<close>

definition probe_dir :: "'s server \<Rightarrow> string \<Rightarrow> 's session \<Rightarrow> (ftp_error + bool \<times> bool) \<times> 's session" where
  "probe_dir srv dir_name w =
     (case ftp_cmd srv (MKD dir_name) w of
        (Inl e, w1) \<Rightarrow> (if e = error_perm then (Inr (False, False), w1) else (Inl e, w1))
      | (Inr _, w1) \<Rightarrow>
          (case ftp_cmd srv (RMD dir_name) w1 of
             (Inl e, w2) \<Rightarrow> (if e = error_perm then (Inr (True, False), w2) else (Inl e, w2))
           | (Inr _, w2) \<Rightarrow> (Inr (True, True), w2)))"

text \<open>Lines 208-220: the file half, \<open>(can_upload_file, can_delete_file)\<close>.\<close>

definition probe_file :: "'s server \<Rightarrow> string \<Rightarrow> 's session \<Rightarrow> (ftp_error + bool \<times> bool) \<times> 's session" where
  "probe_file srv filename w =
     (case ftp_cmd srv (STOR filename) w of
        (Inl e, w1) \<Rightarrow> (if e = error_perm then (Inr (False, False), w1) else (Inl e, w1))
      | (Inr _, w1) \<Rightarrow>
          (case ftp_cmd srv (DELE filename) w1 of
             (Inl e, w2) \<Rightarrow> (if e = error_perm then (Inr (True, False), w2) else (Inl e, w2))
           | (Inr _, w2) \<Rightarrow> (Inr (True, True), w2)))"

text \<open>Lines 189-223: an exception of the first half ends the call; the result is the list
  \<^verbatim>\<open>[can_create_dir, can_delete_dir, can_upload_file, can_delete_file]\<close>.\<close>

definition checkWriteAndDeleteAccess ::
  "'s server \<Rightarrow> string \<Rightarrow> string \<Rightarrow> 's session \<Rightarrow> (ftp_error + bool list) \<times> 's session" where
  "checkWriteAndDeleteAccess srv dir_name filename w =
     (case probe_dir srv dir_name w of
        (Inl e, w1) \<Rightarrow> (Inl e, w1)
      | (Inr (can_create_dir, can_delete_dir), w1) \<Rightarrow>
          (case probe_file srv filename w1 of
             (Inl e, w2) \<Rightarrow> (Inl e, w2)
           | (Inr (can_upload_file, can_delete_file), w2) \<Rightarrow>
               (Inr [can_create_dir, can_delete_dir, can_upload_file, can_delete_file], w2)))"

subsection \<open>The default names\<close>

text \<open>\<^verbatim>\<open>str(n)\<close> for a number that is not negative.\<close>

fun str_nat :: "nat \<Rightarrow> string" where
  "str_nat n =
     (if n < 10 then [''0123456789'' ! n]
      else str_nat (n div 10) @ [''0123456789'' ! (n mod 10)])"

declare str_nat.simps [simp del]

text \<open>
  Lines 177-178: the defaults of \<^verbatim>\<open>dir_name\<close> and \<^verbatim>\<open>filename\<close> are expressions in the
  \<^verbatim>\<open>def\<close> header. Python evaluates them when the \<^verbatim>\<open>def\<close> statement runs, that is once,
  while the class body is executed; the two values of \<^verbatim>\<open>random.randrange\<close> drawn then
  are \<open>r1\<close> and \<open>r2\<close>. The function object keeps the two strings.
\<close>

record defaults =
  default_dir_name :: string
  default_filename :: string

definition define_checkWriteAndDeleteAccess :: "nat \<Rightarrow> nat \<Rightarrow> defaults" where
  "define_checkWriteAndDeleteAccess r1 r2 =
     \<lparr>default_dir_name = ''folder_to_delete_'' @ str_nat r1,
      default_filename = ''file_to_delete_'' @ str_nat r2\<rparr>"

text \<open>A call that omits both names, as lines 369 and 375 do.\<close>

definition checkWriteAndDeleteAccess_no_args ::
  "defaults \<Rightarrow> 's server \<Rightarrow> 's session \<Rightarrow> (ftp_error + bool list) \<times> 's session" where
  "checkWriteAndDeleteAccess_no_args d srv w =
     checkWriteAndDeleteAccess srv (default_dir_name d) (default_filename d) w"

section \<open>getContent\<close>

text \<open>What \<^verbatim>\<open>__getContent\<close> returns: \<^verbatim>\<open>''\<close> for an entry, \<^verbatim>\<open>'+'\<close> where a limit
  stopped the scan, or the dictionary \<^verbatim>\<open>level\<close>, in insertion order.\<close>

datatype tree = Leaf | Truncated | Subtree "(string \<times> tree) list"

text \<open>\<^verbatim>\<open>level[name] = v\<close>: a key already there keeps its place.\<close>

fun dict_set :: "'k \<Rightarrow> 'v \<Rightarrow> ('k \<times> 'v) list \<Rightarrow> ('k \<times> 'v) list" where
  "dict_set k v [] = [(k, v)]"
| "dict_set k v ((k', v') # kvs) =
     (if k' = k then (k, v) # kvs else (k', v') # dict_set k v kvs)"

text \<open>\<^verbatim>\<open>s.split(c)\<close> and \<^verbatim>\<open>s.find(c)\<close> for a separator of one character.\<close>

fun split_on :: "char \<Rightarrow> string \<Rightarrow> string list" where
  "split_on c [] = [[]]"
| "split_on c (x # xs) =
     (if x = c then [] # split_on c xs
      else (case split_on c xs of [] \<Rightarrow> [[x]] | y # ys \<Rightarrow> (x # y) # ys))"

fun str_find :: "char \<Rightarrow> string \<Rightarrow> int" where
  "str_find c [] = -1"
| "str_find c (x # xs) =
     (if x = c then 0 else (if str_find c xs < 0 then -1 else str_find c xs + 1))"

text \<open>
  The parameter \<^verbatim>\<open>optimized\<close> holds \<^verbatim>\<open>True\<close> in the call of line 174 and an integer in
  the call of line 81; \<^verbatim>\<open>not v\<close> is Python's truth test.
\<close>

datatype pyval = PyBool bool | PyInt int

fun py_not :: "pyval \<Rightarrow> bool" where
  "py_not (PyBool b) = (b = False)"
| "py_not (PyInt i) = (i = 0)"

text \<open>Line 85: the exception classes the loop catches.\<close>

definition caught :: "ftp_error \<Rightarrow> bool" where
  "caught e = (e = error_perm \<or> e = error_temp \<or> e = error_reply \<or> e = error_proto)"

text \<open>
  A call of \<^verbatim>\<open>__getContent\<close> ends with a value or an exception, and leaves a session;
  \<open>None\<close> stands for a recursion deeper than the fuel.
\<close>

type_synonym 's scan_result = "((ftp_error + tree) \<times> 's session) option"

text \<open>
  Lines 79-84, the body of the \<^verbatim>\<open>try\<close>. \<open>rec\<close> is the recursive call of line 81. The
  result is the exception raised (if any), and \<^verbatim>\<open>level\<close> and the session at that
  moment.
\<close>

definition try_body ::
  "('s session \<Rightarrow> 's scan_result) \<Rightarrow> 's server \<Rightarrow> pyval \<Rightarrow> string \<Rightarrow> string \<Rightarrow>
   (string \<times> tree) list \<Rightarrow> 's session \<Rightarrow>
   (ftp_error option \<times> (string \<times> tree) list \<times> 's session) option" where
  "try_body rec srv optimized entry name level w =
     (if str_find CHR ''.'' name \<le> 0 \<or> py_not optimized then
        (case ftp_cmd srv (CWD entry) w of
           (Inl e, w1) \<Rightarrow> Some (Some e, level, w1)
         | (Inr _, w1) \<Rightarrow>
             (case rec w1 of
                None \<Rightarrow> None
              | Some (Inl e, w2) \<Rightarrow> Some (Some e, level, w2)
              | Some (Inr t, w2) \<Rightarrow>
                  (case ftp_cmd srv (CWD ''..'') w2 of
                     (Inl e, w3) \<Rightarrow> Some (Some e, dict_set name t level, w3)
                   | (Inr _, w3) \<Rightarrow> Some (None, dict_set name t level, w3))))
      else Some (None, dict_set name Leaf level, w))"

text \<open>Lines 68-86: one round of the loop, with the \<^verbatim>\<open>except\<close> clause.\<close>

definition scan_entry ::
  "('s session \<Rightarrow> 's scan_result) \<Rightarrow> 's server \<Rightarrow> pyval \<Rightarrow> string \<Rightarrow>
   (string \<times> tree) list \<Rightarrow> 's session \<Rightarrow>
   (ftp_error option \<times> (string \<times> tree) list \<times> 's session) option" where
  "scan_entry rec srv optimized entry level w =
     (let entry_split = split_on CHR ''/'' entry;
          name = entry_split ! (length entry_split - 1)
      in case try_body rec srv optimized entry name level w of
           None \<Rightarrow> None
         | Some (None, level', w') \<Rightarrow> Some (None, level', w')
         | Some (Some e, level', w') \<Rightarrow>
             (if caught e then Some (None, dict_set name Leaf level', w')
              else Some (Some e, level', w')))"

text \<open>Lines 67-90: the loop over the entries, and \<^verbatim>\<open>return level\<close>.\<close>

fun scan_entries ::
  "('s session \<Rightarrow> 's scan_result) \<Rightarrow> 's server \<Rightarrow> pyval \<Rightarrow> string list \<Rightarrow>
   (string \<times> tree) list \<Rightarrow> 's session \<Rightarrow> 's scan_result" where
  "scan_entries rec srv optimized [] level w = Some (Inr (Subtree level), w)"
| "scan_entries rec srv optimized (entry # rest) level w =
     (case scan_entry rec srv optimized entry level w of
        None \<Rightarrow> None
      | Some (Some e, level', w') \<Rightarrow> Some (Inl e, w')
      | Some (None, level', w') \<Rightarrow> scan_entries rec srv optimized rest level' w')"

text \<open>
  Lines 44-90. The call of line 81 passes four positional arguments,
  \<^verbatim>\<open>self.__getContent(max_depth, max_files, count, depth + 1)\<close>, to the parameters
  \<^verbatim>\<open>(max_depth, max_files, optimized, count, depth)\<close>: \<^verbatim>\<open>optimized\<close> receives
  \<^verbatim>\<open>count\<close>, \<^verbatim>\<open>count\<close> receives \<^verbatim>\<open>depth + 1\<close>, and \<^verbatim>\<open>depth\<close> takes its default 0.
  \<^verbatim>\<open>nlst()\<close> is called outside the \<^verbatim>\<open>try\<close>: what it raises leaves the call.
\<close>

primrec getContent' ::
  "nat \<Rightarrow> 's server \<Rightarrow> int \<Rightarrow> int \<Rightarrow> pyval \<Rightarrow> int \<Rightarrow> int \<Rightarrow> 's session \<Rightarrow> 's scan_result" where
  "getContent' 0 srv max_depth max_files optimized count depth w = None"
| "getContent' (Suc fuel) srv max_depth max_files optimized count depth w =
     (let count = (if max_files \<ge> 0 then count + 1 else count) in
      if max_files \<ge> 0 \<and> count \<ge> max_files then Some (Inr Truncated, w)
      else if max_depth \<ge> 0 \<and> depth > max_depth then Some (Inr Truncated, w)
      else
        (case ftp_cmd srv NLST w of
           (Inl e, w1) \<Rightarrow> Some (Inl e, w1)
         | (Inr paths, w1) \<Rightarrow>
             scan_entries
               (getContent' fuel srv max_depth max_files (PyInt count) (depth + 1) 0)
               srv optimized
               (filter (\<lambda>path. path \<noteq> ''.'' \<and> path \<noteq> ''..'') paths) [] w1))"

text \<open>Lines 163-174: the public entry; \<^verbatim>\<open>optimized\<close>, \<^verbatim>\<open>count\<close> and \<^verbatim>\<open>depth\<close> take their
  defaults \<^verbatim>\<open>True\<close>, \<^verbatim>\<open>-1\<close> and \<^verbatim>\<open>0\<close>.\<close>

definition getContent :: "nat \<Rightarrow> 's server \<Rightarrow> int \<Rightarrow> int \<Rightarrow> 's session \<Rightarrow> 's scan_result" where
  "getContent fuel srv max_depth max_files w =
     getContent' fuel srv max_depth max_files (PyBool True) (-1) 0 w"

section \<open>Servers to run the code against\<close>

text \<open>
  A remote file system: a file, or a folder that may refuse to be listed. The server's
  state is the working directory, as the path from the root. \<^verbatim>\<open>CWD\<close> into a folder
  succeeds and \<^verbatim>\<open>CWD ..\<close> drops the last segment; \<^verbatim>\<open>NLST\<close> answers with the names in
  the working directory, or with a 550 reply (\<^verbatim>\<open>error_perm\<close>) where listing is refused;
  every other command is refused.
\<close>

datatype fsnode = File | Folder bool "(string \<times> fsnode) list"

fun lookup_path :: "fsnode \<Rightarrow> string list \<Rightarrow> fsnode option" where
  "lookup_path n [] = Some n"
| "lookup_path n (p # ps) =
     (case n of
        File \<Rightarrow> None
      | Folder listable kids \<Rightarrow>
          (case map_of kids p of None \<Rightarrow> None | Some k \<Rightarrow> lookup_path k ps))"

definition fs_server :: "fsnode \<Rightarrow> (string list) server" where
  "fs_server root c cwd =
     (case c of
        NLST \<Rightarrow>
          (case lookup_path root cwd of
             Some (Folder True kids) \<Rightarrow> (Inr (map fst kids), cwd)
           | _ \<Rightarrow> (Inl error_perm, cwd))
      | CWD p \<Rightarrow>
          (if p = ''..'' then (Inr [], butlast cwd)
           else
             (case lookup_path root (cwd @ [p]) of
                Some (Folder listable kids) \<Rightarrow> (Inr [], cwd @ [p])
              | _ \<Rightarrow> (Inl error_perm, cwd)))
      | _ \<Rightarrow> (Inl error_perm, cwd))"

text \<open>A session that has sent nothing yet, in the root directory.\<close>

definition at_root :: "(string list) session" where
  "at_root = \<lparr>remote = [], sent = []\<rparr>"

text \<open>A server without state that answers every command alike, and one whose \<^verbatim>\<open>DIR\<close>
  answers with the given lines.\<close>

definition always :: "(ftp_error + string list) \<Rightarrow> unit server" where
  "always reply c s = (reply, s)"

definition listing :: "string list \<Rightarrow> unit server" where
  "listing data c s = (case c of DIR \<Rightarrow> (Inr data, s) | _ \<Rightarrow> (Inl error_perm, s))"

definition fresh :: "unit session" where
  "fresh = \<lparr>remote = (), sent = []\<rparr>"

text \<open>A server without state whose answer depends on the command alone.\<close>

definition scripted :: "(call \<Rightarrow> ftp_error option) \<Rightarrow> unit server" where
  "scripted f c s = (case f c of None \<Rightarrow> (Inr [], s) | Some e \<Rightarrow> (Inl e, s))"

text \<open>The remote trees the scanner is run against below. In \<open>unlistable_dir\<close> the
  folder \<open>a\<close> can be entered, and answers \<^verbatim>\<open>NLST\<close> with a 550 reply.\<close>

definition nested_dirs :: fsnode where
  "nested_dirs = Folder True [(''a'', Folder True [(''b'', Folder True [])]), (''f.txt'', File)]"

definition five_files :: fsnode where
  "five_files = Folder True [(''a.txt'', File), (''b.txt'', File), (''c.txt'', File),
     (''d.txt'', File), (''e.txt'', File)]"

definition five_entries :: fsnode where
  "five_entries = Folder True [(''a'', Folder True [(''x.txt'', File), (''y.txt'', File)]),
     (''b.txt'', File), (''c.txt'', File)]"

definition unlistable_dir :: fsnode where
  "unlistable_dir = Folder True [(''a'', Folder False []), (''b'', Folder True [(''c'', File)])]"

definition file_in_dir :: fsnode where
  "file_in_dir = Folder True [(''a'', Folder True [(''f.txt'', File)])]"

section \<open>Vocabulary of the statements\<close>

text \<open>Lines 251-258: the lines that count as an entry of either kind. A line of 10
  characters or fewer is skipped whatever it starts with.\<close>

definition dir_entry :: "string \<Rightarrow> bool" where
  "dir_entry line = (length line > 10 \<and> line ! 0 = CHR ''d'')"

definition file_entry :: "string \<Rightarrow> bool" where
  "file_entry line = (length line > 10 \<and> line ! 0 = CHR ''-'')"

text \<open>The spec's wording of one digit of a rights number: 4 for read, 2 for write, 1 for
  execute.\<close>

definition triad_digit :: "bool \<Rightarrow> bool \<Rightarrow> bool \<Rightarrow> int" where
  "triad_digit rd wr ex = (if rd then 4 else 0) + (if wr then 2 else 0) + (if ex then 1 else 0)"

section \<open>Properties of getMaxRights\<close>

lemmas rights_defs =
  parseMaxRights_def scan_line_def mark_right_def grants_def init_acc_def rights_number_def

lemma range_1_10: "[Suc 0..<10] = [1, 2, 3, 4, 5, 6, 7, 8, 9]"
  by (simp add: upt_rec)

lemma mark_right_valid [simp]:
  "is_valid_dir (mark_right line a i) = is_valid_dir a"
  "is_valid_file (mark_right line a i) = is_valid_file a"
  by (simp_all add: mark_right_def)

lemma foldl_mark_right_valid [simp]:
  "is_valid_dir (foldl (mark_right line) a is) = is_valid_dir a"
  "is_valid_file (foldl (mark_right line) a is) = is_valid_file a"
  by (induction "is" arbitrary: a) simp_all

lemma scan_line_valid:
  "is_valid_dir (scan_line a line) = (is_valid_dir a \<or> dir_entry line)"
  "is_valid_file (scan_line a line) = (is_valid_file a \<or> file_entry line)"
  by (auto simp add: scan_line_def dir_entry_def file_entry_def)

lemma foldl_scan_line_valid:
  "is_valid_dir (foldl scan_line a data) = (is_valid_dir a \<or> (\<exists>l\<in>set data. dir_entry l))"
  "is_valid_file (foldl scan_line a data) = (is_valid_file a \<or> (\<exists>l\<in>set data. file_entry l))"
  by (induction data arbitrary: a) (auto simp add: scan_line_valid)

lemma rights_number_nonneg: "0 \<le> rights_number r"
  by (simp add: rights_number_def)

lemma parseMaxRights_eq:
  "parseMaxRights data =
     (if \<exists>l\<in>set data. dir_entry l
      then rights_number (result_dir (foldl scan_line init_acc data)) else -1,
      if \<exists>l\<in>set data. file_entry l
      then rights_number (result_file (foldl scan_line init_acc data)) else -1)"
proof -
  have d: "is_valid_dir (foldl scan_line init_acc data) = (\<exists>l\<in>set data. dir_entry l)"
    by (simp add: foldl_scan_line_valid init_acc_def)
  have f: "is_valid_file (foldl scan_line init_acc data) = (\<exists>l\<in>set data. file_entry l)"
    by (simp add: foldl_scan_line_valid init_acc_def)
  show ?thesis
    unfolding parseMaxRights_def Let_def d f by auto
qed

lemma parseMaxRights_fst:
  "(fst (parseMaxRights data) = -1) = (\<not> (\<exists>l\<in>set data. dir_entry l))"
  using rights_number_nonneg [of "result_dir (foldl scan_line init_acc data)"]
  by (simp add: parseMaxRights_eq)

lemma parseMaxRights_snd:
  "(snd (parseMaxRights data) = -1) = (\<not> (\<exists>l\<in>set data. file_entry l))"
  using rights_number_nonneg [of "result_file (foldl scan_line init_acc data)"]
  by (simp add: parseMaxRights_eq)

lemma not_entry_if_other_prefix:
  "take 1 l \<noteq> ''d'' \<Longrightarrow> \<not> dir_entry l"
  "take 1 l \<noteq> ''-'' \<Longrightarrow> \<not> file_entry l"
  by (cases l; simp add: dir_entry_def file_entry_def)+

lemma getMaxRights_fst:
  "fst (getMaxRights srv w) =
     (case fst (srv DIR (remote w)) of
        Inl e \<Rightarrow> if e = error_perm then Inr (-1, -1) else Inl e
      | Inr data \<Rightarrow> Inr (parseMaxRights data))"
  by (simp add: getMaxRights_def ftp_cmd_def split: prod.splits sum.splits)

text \<open>
  C8. \<^verbatim>\<open>getMaxRights\<close> returns \<open>(-1, -1)\<close> when \<^verbatim>\<open>dir\<close> is refused with
  \<^verbatim>\<open>error_perm\<close>, when the listing is empty, and when no line of the listing starts with
  \<open>d\<close> or \<open>-\<close> (a line without a first character included). Whenever the listing is
  returned, the first component is \<open>-1\<close> exactly when the listing has no directory entry
  and the second exactly when it has no file entry, an entry being a line longer than 10
  characters that starts with \<open>d\<close> or \<open>-\<close>.
\<close>

theorem getMaxRights_minus_one:
  "(fst (srv DIR (remote w)) = Inl error_perm \<longrightarrow> fst (getMaxRights srv w) = Inr (-1, -1)) \<and>
   (fst (srv DIR (remote w)) = Inr [] \<longrightarrow> fst (getMaxRights srv w) = Inr (-1, -1)) \<and>
   (fst (srv DIR (remote w)) = Inr data \<and>
      (\<forall>l\<in>set data. take 1 l \<noteq> ''d'' \<and> take 1 l \<noteq> ''-'') \<longrightarrow>
        fst (getMaxRights srv w) = Inr (-1, -1)) \<and>
   (fst (srv DIR (remote w)) = Inr data \<longrightarrow>
      (\<exists>d f. fst (getMaxRights srv w) = Inr (d, f) \<and>
         (d = -1) = (\<not> (\<exists>l\<in>set data. dir_entry l)) \<and>
         (f = -1) = (\<not> (\<exists>l\<in>set data. file_entry l))))"
proof (intro conjI impI)
  assume "fst (srv DIR (remote w)) = Inl error_perm"
  then show "fst (getMaxRights srv w) = Inr (-1, -1)"
    by (simp add: getMaxRights_fst)
next
  assume "fst (srv DIR (remote w)) = Inr []"
  then show "fst (getMaxRights srv w) = Inr (-1, -1)"
    by (simp add: getMaxRights_fst parseMaxRights_def)
next
  assume a: "fst (srv DIR (remote w)) = Inr data \<and>
      (\<forall>l\<in>set data. take 1 l \<noteq> ''d'' \<and> take 1 l \<noteq> ''-'')"
  then have "fst (parseMaxRights data) = -1" "snd (parseMaxRights data) = -1"
    by (auto simp add: parseMaxRights_fst parseMaxRights_snd not_entry_if_other_prefix)
  then have "parseMaxRights data = (-1, -1)"
    by (simp add: prod_eq_iff)
  with a show "fst (getMaxRights srv w) = Inr (-1, -1)"
    by (simp add: getMaxRights_fst)
next
  assume a: "fst (srv DIR (remote w)) = Inr data"
  show "\<exists>d f. fst (getMaxRights srv w) = Inr (d, f) \<and>
         (d = -1) = (\<not> (\<exists>l\<in>set data. dir_entry l)) \<and>
         (f = -1) = (\<not> (\<exists>l\<in>set data. file_entry l))"
    using a parseMaxRights_fst [of data] parseMaxRights_snd [of data]
    by (cases "parseMaxRights data") (simp add: getMaxRights_fst)
qed

theorem getMaxRights_minus_one_witness:
  "fst (getMaxRights (always (Inl error_perm)) fresh) = Inr (-1, -1) \<and>
   fst (getMaxRights (listing []) fresh) = Inr (-1, -1) \<and>
   fst (getMaxRights (listing [''lrwxrwxrwx 1 ftp ftp 3 Jan 01 2016 latest -> pub'']) fresh) =
     Inr (-1, -1) \<and>
   fst (getMaxRights (listing [''drwxr-xr-x 2 ftp ftp 4096 Jan 01 2016 pub'']) fresh) =
     Inr (755, -1)"
proof -
  let ?link = "''lrwxrwxrwx 1 ftp ftp 3 Jan 01 2016 latest -> pub''"
  let ?pub = "''drwxr-xr-x 2 ftp ftp 4096 Jan 01 2016 pub''"
  have h1: "fst (always (Inl error_perm) DIR (remote fresh)) = Inl error_perm"
    by (simp add: always_def)
  have h2: "fst (listing [] DIR (remote fresh)) = Inr []"
    by (simp add: listing_def)
  have h3: "fst (listing [?link] DIR (remote fresh)) = Inr [?link] \<and>
      (\<forall>l\<in>set [?link]. take 1 l \<noteq> ''d'' \<and> take 1 l \<noteq> ''-'')"
    by (simp add: listing_def)
  have h4: "fst (listing [?pub] DIR (remote fresh)) = Inr [?pub]"
    by (simp add: listing_def)
  have e4: "dir_entry ?pub" "\<not> file_entry ?pub"
    by (simp_all add: dir_entry_def file_entry_def)
  from getMaxRights_minus_one [of "always (Inl error_perm)" fresh] h1
  have c1: "fst (getMaxRights (always (Inl error_perm)) fresh) = Inr (-1, -1)" by blast
  from getMaxRights_minus_one [of "listing []" fresh] h2
  have c2: "fst (getMaxRights (listing []) fresh) = Inr (-1, -1)" by blast
  from getMaxRights_minus_one [of "listing [?link]" fresh "[?link]"] h3
  have c3: "fst (getMaxRights (listing [?link]) fresh) = Inr (-1, -1)" by blast
  from getMaxRights_minus_one [of "listing [?pub]" fresh "[?pub]"] h4
  obtain d f where df: "fst (getMaxRights (listing [?pub]) fresh) = Inr (d, f)"
    "(d = -1) = (\<not> (\<exists>l\<in>set [?pub]. dir_entry l))"
    "(f = -1) = (\<not> (\<exists>l\<in>set [?pub]. file_entry l))" by blast
  from df(3) e4 have "f = -1" by simp
  moreover have "fst (parseMaxRights [?pub]) = 755"
    by (simp add: rights_defs range_1_10)
  moreover have "fst (getMaxRights (listing [?pub]) fresh) = Inr (parseMaxRights [?pub])"
    by (simp add: getMaxRights_fst listing_def)
  ultimately have c4: "fst (getMaxRights (listing [?pub]) fresh) = Inr (755, -1)"
    using df(1) by (simp add: prod_eq_iff)
  from c1 c2 c3 c4 show ?thesis by blast
qed

lemma rights_number_digits:
  "rights_number r =
     triad_digit (r ! 0) (r ! 1) (r ! 2) * 100 +
     triad_digit (r ! 3) (r ! 4) (r ! 5) * 10 +
     triad_digit (r ! 6) (r ! 7) (r ! 8)"
  by (simp add: rights_number_def triad_digit_def)

text \<open>
  C9. A listing of a directory line that starts with \<open>drwxr-xr-x\<close> and a file line that
  starts with \<open>-rw-r--r--\<close>, each followed by further text, gives \<open>(755, 644)\<close>. For every
  listing, each component that is not \<open>-1\<close> is \<open>owner * 100 + group * 10 + other\<close>, each
  digit being 4 for a set read bit plus 2 for write plus 1 for execute of the accumulated
  table.
\<close>

theorem parseMaxRights_755_644:
  "(s1 \<noteq> [] \<and> s2 \<noteq> [] \<longrightarrow>
      parseMaxRights [''drwxr-xr-x'' @ s1, ''-rw-r--r--'' @ s2] = (755, 644)) \<and>
   parseMaxRights data =
     (if \<exists>l\<in>set data. dir_entry l
      then (let r = result_dir (foldl scan_line init_acc data)
            in triad_digit (r ! 0) (r ! 1) (r ! 2) * 100 +
               triad_digit (r ! 3) (r ! 4) (r ! 5) * 10 +
               triad_digit (r ! 6) (r ! 7) (r ! 8))
      else -1,
      if \<exists>l\<in>set data. file_entry l
      then (let r = result_file (foldl scan_line init_acc data)
            in triad_digit (r ! 0) (r ! 1) (r ! 2) * 100 +
               triad_digit (r ! 3) (r ! 4) (r ! 5) * 10 +
               triad_digit (r ! 6) (r ! 7) (r ! 8))
      else -1)"
proof
  show "s1 \<noteq> [] \<and> s2 \<noteq> [] \<longrightarrow>
      parseMaxRights [''drwxr-xr-x'' @ s1, ''-rw-r--r--'' @ s2] = (755, 644)"
    by (simp add: rights_defs range_1_10 Suc_le_eq)
next
  show "parseMaxRights data =
     (if \<exists>l\<in>set data. dir_entry l
      then (let r = result_dir (foldl scan_line init_acc data)
            in triad_digit (r ! 0) (r ! 1) (r ! 2) * 100 +
               triad_digit (r ! 3) (r ! 4) (r ! 5) * 10 +
               triad_digit (r ! 6) (r ! 7) (r ! 8))
      else -1,
      if \<exists>l\<in>set data. file_entry l
      then (let r = result_file (foldl scan_line init_acc data)
            in triad_digit (r ! 0) (r ! 1) (r ! 2) * 100 +
               triad_digit (r ! 3) (r ! 4) (r ! 5) * 10 +
               triad_digit (r ! 6) (r ! 7) (r ! 8))
      else -1)"
    unfolding Let_def rights_number_digits [symmetric] by (rule parseMaxRights_eq)
qed

theorem parseMaxRights_755_644_witness:
  "parseMaxRights [''drwxr-xr-x ... dirA'', ''-rw-r--r-- ... fileA''] = (755, 644)"
proof -
  have h: "'' ... dirA'' \<noteq> [] \<and> '' ... fileA'' \<noteq> []" by simp
  from parseMaxRights_755_644 [of "'' ... dirA''" "'' ... fileA''"] h
  have "parseMaxRights [''drwxr-xr-x'' @ '' ... dirA'', ''-rw-r--r--'' @ '' ... fileA''] = (755, 644)"
    by blast
  then show ?thesis by simp
qed

text \<open>
  C4, as stated, fails: the two lines \<open>drwx------\<close> and \<open>d---r-xr-x\<close> are 10 characters
  long, the loop of line 251 skips them, and the directory rights are \<open>-1\<close>; followed by
  a name, the two lines give 755, not 775.
\<close>

theorem parseMaxRights_two_dirs_counterexample:
  "fst (parseMaxRights [''drwx------'', ''d---r-xr-x'']) \<noteq> 775 \<and>
   fst (parseMaxRights [''drwx------ a'', ''d---r-xr-x b'']) \<noteq> 775"
  by (simp add: rights_defs range_1_10)

text \<open>
  C4, amended. The two 10-character lines alone give \<open>(-1, -1)\<close>. Two directory lines that
  start with \<open>drwx------\<close> and \<open>d---r-xr-x\<close> and go on give the directory rights 755, the
  union of the bits of both entries, where either entry alone gives 700 and 55.
\<close>

theorem parseMaxRights_two_dirs_union:
  "parseMaxRights [''drwx------'', ''d---r-xr-x''] = (-1, -1) \<and>
   (s1 \<noteq> [] \<and> s2 \<noteq> [] \<longrightarrow>
      fst (parseMaxRights [''drwx------'' @ s1, ''d---r-xr-x'' @ s2]) = 755 \<and>
      fst (parseMaxRights [''drwx------'' @ s1]) = 700 \<and>
      fst (parseMaxRights [''d---r-xr-x'' @ s2]) = 55)"
  by (simp add: rights_defs range_1_10 Suc_le_eq)

theorem parseMaxRights_two_dirs_union_witness:
  "fst (parseMaxRights [''drwx------ 2 ftp ftp 4096 Jan 01 2016 a'',
                        ''d---r-xr-x 2 ftp ftp 4096 Jan 01 2016 b'']) = 755 \<and>
   fst (parseMaxRights [''drwx------ 2 ftp ftp 4096 Jan 01 2016 a'']) = 700 \<and>
   fst (parseMaxRights [''d---r-xr-x 2 ftp ftp 4096 Jan 01 2016 b'']) = 55"
proof -
  have h: "'' 2 ftp ftp 4096 Jan 01 2016 a'' \<noteq> [] \<and> '' 2 ftp ftp 4096 Jan 01 2016 b'' \<noteq> []"
    by simp
  from parseMaxRights_two_dirs_union
    [of "'' 2 ftp ftp 4096 Jan 01 2016 a''" "'' 2 ftp ftp 4096 Jan 01 2016 b''"] h
  have "fst (parseMaxRights [''drwx------'' @ '' 2 ftp ftp 4096 Jan 01 2016 a'',
                        ''d---r-xr-x'' @ '' 2 ftp ftp 4096 Jan 01 2016 b'']) = 755 \<and>
   fst (parseMaxRights [''drwx------'' @ '' 2 ftp ftp 4096 Jan 01 2016 a'']) = 700 \<and>
   fst (parseMaxRights [''d---r-xr-x'' @ '' 2 ftp ftp 4096 Jan 01 2016 b'']) = 55"
    by blast
  then show ?thesis by simp
qed

section \<open>Properties of checkWriteAndDeleteAccess\<close>

text \<open>The runs of either half, one by one: what is returned and what was sent.\<close>

lemma probe_dir_cases:
  assumes "probe_dir srv dir_name w = (r, w')"
  shows "(\<exists>e. e \<noteq> error_perm \<and> r = Inl e \<and> sent w' = sent w @ [(MKD dir_name, Some e)]) \<or>
         (r = Inr (False, False) \<and> sent w' = sent w @ [(MKD dir_name, Some error_perm)]) \<or>
         (\<exists>e. e \<noteq> error_perm \<and> r = Inl e \<and>
            sent w' = sent w @ [(MKD dir_name, None), (RMD dir_name, Some e)]) \<or>
         (r = Inr (True, False) \<and>
            sent w' = sent w @ [(MKD dir_name, None), (RMD dir_name, Some error_perm)]) \<or>
         (r = Inr (True, True) \<and>
            sent w' = sent w @ [(MKD dir_name, None), (RMD dir_name, None)])"
  using assms
  by (auto simp add: probe_dir_def ftp_cmd_def raised_def split: prod.splits sum.splits if_splits)

lemma probe_file_cases:
  assumes "probe_file srv filename w = (r, w')"
  shows "(\<exists>e. e \<noteq> error_perm \<and> r = Inl e \<and> sent w' = sent w @ [(STOR filename, Some e)]) \<or>
         (r = Inr (False, False) \<and> sent w' = sent w @ [(STOR filename, Some error_perm)]) \<or>
         (\<exists>e. e \<noteq> error_perm \<and> r = Inl e \<and>
            sent w' = sent w @ [(STOR filename, None), (DELE filename, Some e)]) \<or>
         (r = Inr (True, False) \<and>
            sent w' = sent w @ [(STOR filename, None), (DELE filename, Some error_perm)]) \<or>
         (r = Inr (True, True) \<and>
            sent w' = sent w @ [(STOR filename, None), (DELE filename, None)])"
  using assms
  by (auto simp add: probe_file_def ftp_cmd_def raised_def split: prod.splits sum.splits if_splits)


lemma probe_split:
  assumes "checkWriteAndDeleteAccess srv dir_name filename w = (r, w')"
  shows "(\<exists>e. probe_dir srv dir_name w = (Inl e, w') \<and> r = Inl e) \<or>
         (\<exists>a b w1 e. probe_dir srv dir_name w = (Inr (a, b), w1) \<and>
            probe_file srv filename w1 = (Inl e, w') \<and> r = Inl e) \<or>
         (\<exists>a b w1 c d. probe_dir srv dir_name w = (Inr (a, b), w1) \<and>
            probe_file srv filename w1 = (Inr (c, d), w') \<and> r = Inr [a, b, c, d])"
  using assms
  by (auto simp add: checkWriteAndDeleteAccess_def split: prod.splits sum.splits)

text \<open>
  C6. Whatever the server answers, the commands a call of
  \<^verbatim>\<open>checkWriteAndDeleteAccess\<close> sends (\<open>evs\<close>, with how each ended) and its result
  satisfy: a returned list has four flags, and a delete flag is set only if the create
  flag before it is; every \<^verbatim>\<open>RMD\<close> follows at once a \<^verbatim>\<open>MKD\<close> of the same name that
  returned, and every \<^verbatim>\<open>DELE\<close> a \<^verbatim>\<open>STOR\<close> of the same name that returned; and when
  \<^verbatim>\<open>MKD\<close> and \<^verbatim>\<open>STOR\<close> are both refused with \<^verbatim>\<open>error_perm\<close>, the result is four times
  \<open>False\<close> and nothing but these two commands was sent.
\<close>

theorem delete_only_after_create:
  assumes "checkWriteAndDeleteAccess srv dir_name filename w = (r, w')"
  shows "(\<exists>evs. sent w' = sent w @ evs) \<and>
   (\<forall>evs. sent w' = sent w @ evs \<longrightarrow>
     (\<forall>flags. r = Inr flags \<longrightarrow>
        (\<exists>a b c d. flags = [a, b, c, d] \<and> (b \<longrightarrow> a) \<and> (d \<longrightarrow> c))) \<and>
     (\<forall>i<length evs. \<forall>x. fst (evs ! i) = RMD x \<longrightarrow>
        0 < i \<and> evs ! (i - 1) = (MKD x, None)) \<and>
     (\<forall>i<length evs. \<forall>x. fst (evs ! i) = DELE x \<longrightarrow>
        0 < i \<and> evs ! (i - 1) = (STOR x, None)) \<and>
     ((MKD dir_name, Some error_perm) \<in> set evs \<and> (STOR filename, Some error_perm) \<in> set evs \<longrightarrow>
        r = Inr [False, False, False, False] \<and> map fst evs = [MKD dir_name, STOR filename]))"
  using probe_split [OF assms]
  apply (elim disjE exE conjE)
  subgoal for e
    using probe_dir_cases [of srv dir_name w "Inl e" w']
    by (auto simp add: less_Suc_eq)
  subgoal for a b w1 e
    using probe_dir_cases [of srv dir_name w "Inr (a, b)" w1]
      probe_file_cases [of srv filename w1 "Inl e" w']
    by (auto simp add: less_Suc_eq nth_append nth_Cons')
  subgoal for a b w1 c d
    using probe_dir_cases [of srv dir_name w "Inr (a, b)" w1]
      probe_file_cases [of srv filename w1 "Inr (c, d)" w']
    by (auto simp add: less_Suc_eq nth_append nth_Cons')
  done

theorem delete_only_after_create_witness:
  "fst (checkWriteAndDeleteAccess (always (Inl error_perm)) ''d'' ''f'' fresh) =
     Inr [False, False, False, False] \<and>
   map fst (sent (snd (checkWriteAndDeleteAccess (always (Inl error_perm)) ''d'' ''f'' fresh))) =
     [MKD ''d'', STOR ''f'']"
proof -
  let ?evs = "[(MKD ''d'', Some error_perm), (STOR ''f'', Some error_perm)]"
  let ?w' = "\<lparr>remote = (), sent = ?evs\<rparr>"
  let ?r = "fst (checkWriteAndDeleteAccess (always (Inl error_perm)) ''d'' ''f'' fresh)"
  have run: "checkWriteAndDeleteAccess (always (Inl error_perm)) ''d'' ''f'' fresh = (?r, ?w')"
    by (simp add: checkWriteAndDeleteAccess_def probe_dir_def probe_file_def ftp_cmd_def
        always_def fresh_def raised_def)
  have ext: "sent ?w' = sent fresh @ ?evs"
    by (simp add: fresh_def)
  have both: "(MKD ''d'', Some error_perm) \<in> set ?evs \<and> (STOR ''f'', Some error_perm) \<in> set ?evs"
    by simp
  from delete_only_after_create [OF run, THEN conjunct2, rule_format, OF ext]
  have "(MKD ''d'', Some error_perm) \<in> set ?evs \<and> (STOR ''f'', Some error_perm) \<in> set ?evs \<longrightarrow>
      ?r = Inr [False, False, False, False] \<and> map fst ?evs = [MKD ''d'', STOR ''f'']"
    by (elim conjE)
  from this both
  have "?r = Inr [False, False, False, False] \<and> map fst ?evs = [MKD ''d'', STOR ''f'']"
    by (rule mp)
  then have "?r = Inr [False, False, False, False]" by (rule conjunct1)
  moreover have "sent (snd (checkWriteAndDeleteAccess (always (Inl error_perm)) ''d'' ''f'' fresh)) = ?evs"
    by (simp add: checkWriteAndDeleteAccess_def probe_dir_def probe_file_def ftp_cmd_def
        always_def fresh_def raised_def)
  ultimately show ?thesis by simp
qed

text \<open>
  C7. An exception of any of the four commands that is not \<^verbatim>\<open>error_perm\<close> leaves the
  call as it is, and nothing else does; \<^verbatim>\<open>error_perm\<close> never leaves it. When every
  failure of the run is an \<^verbatim>\<open>error_perm\<close>, the call returns the four flags, each set
  exactly when its command returned, and the upload was attempted whatever the directory
  half gave.
\<close>

theorem only_error_perm_absorbed:
  assumes "checkWriteAndDeleteAccess srv dir_name filename w = (r, w')"
  shows "(\<exists>evs. sent w' = sent w @ evs) \<and>
   (\<forall>evs. sent w' = sent w @ evs \<longrightarrow>
     (\<forall>c e. (c, Some e) \<in> set evs \<and> e \<noteq> error_perm \<longrightarrow> r = Inl e) \<and>
     (\<forall>e. r = Inl e \<longrightarrow> e \<noteq> error_perm \<and> (\<exists>c. (c, Some e) \<in> set evs)) \<and>
     ((\<forall>c e. (c, Some e) \<in> set evs \<longrightarrow> e = error_perm) \<longrightarrow>
        r = Inr [(MKD dir_name, None) \<in> set evs, (RMD dir_name, None) \<in> set evs,
                 (STOR filename, None) \<in> set evs, (DELE filename, None) \<in> set evs] \<and>
        STOR filename \<in> fst ` set evs))"
  using probe_split [OF assms]
  apply (elim disjE exE conjE)
  subgoal for e
    using probe_dir_cases [of srv dir_name w "Inl e" w']
    by auto
  subgoal for a b w1 e
    using probe_dir_cases [of srv dir_name w "Inr (a, b)" w1]
      probe_file_cases [of srv filename w1 "Inl e" w']
    by auto blast+
  subgoal for a b w1 c d
    using probe_dir_cases [of srv dir_name w "Inr (a, b)" w1]
      probe_file_cases [of srv filename w1 "Inr (c, d)" w']
    by auto
  done

theorem only_error_perm_absorbed_witness:
  "fst (checkWriteAndDeleteAccess
          (scripted (\<lambda>c. if c = MKD ''d'' then Some error_perm else None)) ''d'' ''f'' fresh) =
     Inr [False, False, True, True] \<and>
   fst (checkWriteAndDeleteAccess
          (scripted (\<lambda>c. if c = RMD ''d'' then Some error_temp else None)) ''d'' ''f'' fresh) =
     Inl error_temp"
proof -
  let ?deny = "scripted (\<lambda>c. if c = MKD ''d'' then Some error_perm else None)"
  let ?evs1 = "[(MKD ''d'', Some error_perm), (STOR ''f'', None), (DELE ''f'', None)]"
  let ?w1 = "\<lparr>remote = (), sent = ?evs1\<rparr>"
  let ?r1 = "fst (checkWriteAndDeleteAccess ?deny ''d'' ''f'' fresh)"
  have run1: "checkWriteAndDeleteAccess ?deny ''d'' ''f'' fresh = (?r1, ?w1)"
    by (simp add: checkWriteAndDeleteAccess_def probe_dir_def probe_file_def ftp_cmd_def
        scripted_def fresh_def raised_def)
  have ext1: "sent ?w1 = sent fresh @ ?evs1"
    by (simp add: fresh_def)
  have perm_only: "\<forall>c e. (c, Some e) \<in> set ?evs1 \<longrightarrow> e = error_perm"
    by simp
  from only_error_perm_absorbed [OF run1, THEN conjunct2, rule_format, OF ext1]
  have "(\<forall>c e. (c, Some e) \<in> set ?evs1 \<longrightarrow> e = error_perm) \<longrightarrow>
        ?r1 = Inr [(MKD ''d'', None) \<in> set ?evs1, (RMD ''d'', None) \<in> set ?evs1,
                 (STOR ''f'', None) \<in> set ?evs1, (DELE ''f'', None) \<in> set ?evs1] \<and>
        STOR ''f'' \<in> fst ` set ?evs1"
    by (elim conjE)
  from this perm_only
  have "?r1 = Inr [(MKD ''d'', None) \<in> set ?evs1, (RMD ''d'', None) \<in> set ?evs1,
                 (STOR ''f'', None) \<in> set ?evs1, (DELE ''f'', None) \<in> set ?evs1] \<and>
        STOR ''f'' \<in> fst ` set ?evs1"
    by (rule mp)
  then have "?r1 = Inr [(MKD ''d'', None) \<in> set ?evs1, (RMD ''d'', None) \<in> set ?evs1,
                 (STOR ''f'', None) \<in> set ?evs1, (DELE ''f'', None) \<in> set ?evs1]"
    by (rule conjunct1)
  then have c1: "?r1 = Inr [False, False, True, True]" by simp
  let ?flaky = "scripted (\<lambda>c. if c = RMD ''d'' then Some error_temp else None)"
  let ?evs2 = "[(MKD ''d'', None), (RMD ''d'', Some error_temp)]"
  let ?w2 = "\<lparr>remote = (), sent = ?evs2\<rparr>"
  let ?r2 = "fst (checkWriteAndDeleteAccess ?flaky ''d'' ''f'' fresh)"
  have run2: "checkWriteAndDeleteAccess ?flaky ''d'' ''f'' fresh = (?r2, ?w2)"
    by (simp add: checkWriteAndDeleteAccess_def probe_dir_def probe_file_def ftp_cmd_def
        scripted_def fresh_def raised_def)
  have ext2: "sent ?w2 = sent fresh @ ?evs2"
    by (simp add: fresh_def)
  have failed: "(RMD ''d'', Some error_temp) \<in> set ?evs2 \<and> error_temp \<noteq> error_perm"
    by simp
  from only_error_perm_absorbed [OF run2, THEN conjunct2, rule_format, OF ext2]
  have "\<forall>c e. (c, Some e) \<in> set ?evs2 \<and> e \<noteq> error_perm \<longrightarrow> ?r2 = Inl e"
    by (elim conjE)
  then have "(RMD ''d'', Some error_temp) \<in> set ?evs2 \<and> error_temp \<noteq> error_perm \<longrightarrow>
      ?r2 = Inl error_temp"
    by (elim allE)
  from this failed have c2: "?r2 = Inl error_temp" by (rule mp)
  from c1 c2 show ?thesis by (rule conjI)
qed

section \<open>The default names of checkWriteAndDeleteAccess\<close>

lemma str_nat_digit: "n < 10 \<Longrightarrow> str_nat n = [''0123456789'' ! n]"
  by (simp add: str_nat.simps)

lemma str_nat_more:
  "10 \<le> n \<Longrightarrow> str_nat n = str_nat (n div 10) @ [''0123456789'' ! (n mod 10)]"
  by (subst str_nat.simps) simp

lemma defaults_123456789_400000000:
  "define_checkWriteAndDeleteAccess 123456789 400000000 =
     \<lparr>default_dir_name = ''folder_to_delete_123456789'',
      default_filename = ''file_to_delete_400000000''\<rparr>"
  by (simp add: define_checkWriteAndDeleteAccess_def str_nat_digit str_nat_more)

text \<open>
  C10 does not hold of the code. The names a call without arguments uses depend on the two
  numbers drawn when the \<^verbatim>\<open>def\<close> statement ran and on nothing else: every such call, on
  any server and in any session, is the call with these two names. With the draws
  123456789 and 400000000, two calls one after the other on a server that accepts
  everything send the same \<^verbatim>\<open>MKD\<close> and the same \<^verbatim>\<open>STOR\<close>.
\<close>

theorem default_names_fixed_at_definition:
  "checkWriteAndDeleteAccess_no_args (define_checkWriteAndDeleteAccess r1 r2) srv w =
     checkWriteAndDeleteAccess srv
       (''folder_to_delete_'' @ str_nat r1) (''file_to_delete_'' @ str_nat r2) w \<and>
   checkWriteAndDeleteAccess_no_args (define_checkWriteAndDeleteAccess 123456789 400000000)
      (always (Inr []))
      (snd (checkWriteAndDeleteAccess_no_args
         (define_checkWriteAndDeleteAccess 123456789 400000000) (always (Inr [])) fresh)) =
    (Inr [True, True, True, True],
     \<lparr>remote = (), sent =
       [(MKD ''folder_to_delete_123456789'', None), (RMD ''folder_to_delete_123456789'', None),
        (STOR ''file_to_delete_400000000'', None), (DELE ''file_to_delete_400000000'', None),
        (MKD ''folder_to_delete_123456789'', None), (RMD ''folder_to_delete_123456789'', None),
        (STOR ''file_to_delete_400000000'', None), (DELE ''file_to_delete_400000000'', None)]\<rparr>)"
proof
  show "checkWriteAndDeleteAccess_no_args (define_checkWriteAndDeleteAccess r1 r2) srv w =
     checkWriteAndDeleteAccess srv
       (''folder_to_delete_'' @ str_nat r1) (''file_to_delete_'' @ str_nat r2) w"
    by (simp add: checkWriteAndDeleteAccess_no_args_def define_checkWriteAndDeleteAccess_def)
next
  show "checkWriteAndDeleteAccess_no_args (define_checkWriteAndDeleteAccess 123456789 400000000)
      (always (Inr []))
      (snd (checkWriteAndDeleteAccess_no_args
         (define_checkWriteAndDeleteAccess 123456789 400000000) (always (Inr [])) fresh)) =
    (Inr [True, True, True, True],
     \<lparr>remote = (), sent =
       [(MKD ''folder_to_delete_123456789'', None), (RMD ''folder_to_delete_123456789'', None),
        (STOR ''file_to_delete_400000000'', None), (DELE ''file_to_delete_400000000'', None),
        (MKD ''folder_to_delete_123456789'', None), (RMD ''folder_to_delete_123456789'', None),
        (STOR ''file_to_delete_400000000'', None), (DELE ''file_to_delete_400000000'', None)]\<rparr>)"
    by (simp add: defaults_123456789_400000000 checkWriteAndDeleteAccess_no_args_def
        checkWriteAndDeleteAccess_def probe_dir_def probe_file_def ftp_cmd_def always_def
        fresh_def raised_def)
qed

section \<open>Properties of getContent\<close>

text \<open>
  The parameter \<^verbatim>\<open>depth\<close> is 0 in the call of line 174 and in every call of line 81, so
  the test of line 62 never holds and \<^verbatim>\<open>max_depth\<close> has no effect on a scan.
\<close>

lemma getContent'_depth_0:
  "getContent' fuel srv max_depth max_files optimized count 0 w =
   getContent' fuel srv (-1) max_files optimized count 0 w"
proof (induction fuel arbitrary: optimized count w)
  case 0
  show ?case by simp
next
  case (Suc fuel)
  have rec: "getContent' fuel srv max_depth max_files (PyInt c) 1 0 =
             getContent' fuel srv (-1) max_files (PyInt c) 1 0" for c
    by (rule ext) (rule Suc.IH)
  show ?case
    by (simp add: Let_def rec split: prod.splits sum.splits)
qed

lemma getContent_max_depth_unused:
  "getContent fuel srv max_depth max_files w = getContent fuel srv (-1) max_files w"
  unfolding getContent_def by (rule getContent'_depth_0)

text \<open>
  C1 does not hold of the code. A scan with \<^verbatim>\<open>max_depth = 0\<close> of a root that holds the
  folder \<open>a\<close>, which holds the folder \<open>b\<close>, lists \<open>a\<close> and \<open>b\<close> and returns both as
  dictionaries; neither is \<^verbatim>\<open>'+'\<close>.
\<close>

theorem getContent_max_depth_0_expands:
  "getContent 3 (fs_server nested_dirs) 0 (-1) at_root =
     Some (Inr (Subtree [(''a'', Subtree [(''b'', Subtree [])]), (''f.txt'', Leaf)]),
           \<lparr>remote = [], sent = [(NLST, None), (CWD ''a'', None), (NLST, None),
              (CWD ''b'', None), (NLST, None), (CWD ''..'', None), (CWD ''..'', None)]\<rparr>)"
  by code_simp

text \<open>
  C2 does not hold of the code. \<^verbatim>\<open>count\<close> is incremented once per call of
  \<^verbatim>\<open>__getContent\<close>, not per entry, is never handed back to the caller, and is \<open>depth + 1\<close>,
  that is 1, at the start of every call of line 81. With \<^verbatim>\<open>max_files = 2\<close> a root of five
  files gives five leaves and nothing truncated; a root of five entries in two levels gives
  one truncated folder, whose two files are never seen; with \<^verbatim>\<open>max_files = 3\<close> the same
  five entries are all visited.
\<close>

theorem getContent_max_files_2_five_entries:
  "getContent 3 (fs_server five_files) (-1) 2 at_root =
     Some (Inr (Subtree [(''a.txt'', Leaf), (''b.txt'', Leaf), (''c.txt'', Leaf),
             (''d.txt'', Leaf), (''e.txt'', Leaf)]),
           \<lparr>remote = [], sent = [(NLST, None)]\<rparr>) \<and>
   getContent 3 (fs_server five_entries) (-1) 2 at_root =
     Some (Inr (Subtree [(''a'', Truncated), (''b.txt'', Leaf), (''c.txt'', Leaf)]),
           \<lparr>remote = [], sent = [(NLST, None), (CWD ''a'', None), (CWD ''..'', None)]\<rparr>) \<and>
   getContent 3 (fs_server five_entries) (-1) 3 at_root =
     Some (Inr (Subtree [(''a'', Subtree [(''x.txt'', Leaf), (''y.txt'', Leaf)]),
             (''b.txt'', Leaf), (''c.txt'', Leaf)]),
           \<lparr>remote = [], sent = [(NLST, None), (CWD ''a'', None), (NLST, None),
             (CWD ''x.txt'', Some error_perm), (CWD ''y.txt'', Some error_perm),
             (CWD ''..'', None)]\<rparr>)"
  by code_simp

text \<open>
  C3 does not hold of the code. When \<^verbatim>\<open>nlst()\<close> raises in the folder just entered, the
  exception leaves the recursive call, the handler of line 85 records the entry as a leaf,
  and \<^verbatim>\<open>cwd('..')\<close> of line 82 is skipped. The scan goes on from inside \<open>a\<close>: the
  sibling \<open>b\<close>, a folder of the root, is looked for in \<open>a\<close> and recorded as a leaf, and
  the scan ends with the working directory \<open>a\<close>.
\<close>

theorem getContent_cwd_not_restored:
  "getContent 3 (fs_server unlistable_dir) (-1) (-1) at_root =
     Some (Inr (Subtree [(''a'', Leaf), (''b'', Leaf)]),
           \<lparr>remote = [''a''], sent = [(NLST, None), (CWD ''a'', None),
              (NLST, Some error_perm), (CWD ''b'', Some error_perm)]\<rparr>)"
  by code_simp

text \<open>Within one call, the test of line 79 is as the comment above it says: under a true
  \<^verbatim>\<open>optimized\<close>, a name whose first dot is not its first character is recorded as a leaf
  and nothing is sent.\<close>

lemma scan_entry_dotted_name:
  assumes "0 < str_find CHR ''.'' (split_on CHR ''/'' entry ! (length (split_on CHR ''/'' entry) - 1))"
    and "py_not optimized = False"
  shows "scan_entry rec srv optimized entry level w =
    Some (None,
      dict_set (split_on CHR ''/'' entry ! (length (split_on CHR ''/'' entry) - 1)) Leaf level, w)"
  using assms by (simp add: scan_entry_def try_body_def Let_def)

text \<open>
  C5 does not hold of the code. The call of line 81 passes \<^verbatim>\<open>count\<close> where \<^verbatim>\<open>optimized\<close>
  is expected. In a scan started by \<^verbatim>\<open>getContent\<close> (\<^verbatim>\<open>optimized = True\<close>) with
  \<^verbatim>\<open>max_files = 10\<close>, \<^verbatim>\<open>count\<close> is 0 in the first call, so the folders of the root are
  scanned with a false \<^verbatim>\<open>optimized\<close>: in the folder \<open>a\<close>, \<^verbatim>\<open>cwd\<close> is sent for the name
  \<open>f.txt\<close>, whose first dot is at position 1.
\<close>

theorem getContent_cwd_for_dotted_name:
  "getContent 3 (fs_server file_in_dir) (-1) 10 at_root =
     Some (Inr (Subtree [(''a'', Subtree [(''f.txt'', Leaf)])]),
           \<lparr>remote = [], sent = [(NLST, None), (CWD ''a'', None), (NLST, None),
              (CWD ''f.txt'', Some error_perm), (CWD ''..'', None)]\<rparr>)"
  by code_simp

end
